theory Spec2Isabelle
  imports Main
begin

section \<open>Data model\<close>

text \<open>
  The profile document and the session metadata of \<^verbatim>\<open>src/types.ts\<close>. A field that the
  interface marks optional (\<^verbatim>\<open>isOwner?\<close>, \<^verbatim>\<open>authorizedSessions?\<close>) or nullable
  (\<^verbatim>\<open>pendingSessionId?: string | null\<close>) is an \<open>option\<close>: \<open>None\<close> stands for an absent
  or \<^verbatim>\<open>null\<close> field. The program reads such fields only through truthiness tests,
  \<^verbatim>\<open>?.\<close> and \<^verbatim>\<open>===\<close> against a string, none of which tells \<^verbatim>\<open>null\<close> from
  \<^verbatim>\<open>undefined\<close>. \<^verbatim>\<open>Date.now()\<close> is a whole number of milliseconds.
\<close>

record SessionMetadata =
  sid :: string
  deviceName :: string
  timestamp :: int

record UserProfile =
  uid :: string
  email :: string
  isAdmin :: bool
  isOwner :: "bool option"
  isApproved :: bool
  lastSessionId :: string
  authorizedSessions :: "SessionMetadata list option"
  pendingSessionId :: "string option"
  pendingSessionMetadata :: "SessionMetadata option"

definition ROOT_OWNER_EMAIL :: string where
  "ROOT_OWNER_EMAIL = ''owner@flexer.io''"

text \<open>
  The older interface of the repository (the second \<^verbatim>\<open>types.ts\<close>, which
  \<^verbatim>\<open>src/App.tsx\<close> was written against): no \<^verbatim>\<open>authorizedSessions\<close>, and a pending
  metadata object without \<^verbatim>\<open>sid\<close>.
\<close>

record PendingMetadataV1 =
  deviceNameV1 :: string
  timestampV1 :: int

record UserProfileV1 =
  uidV1 :: string
  emailV1 :: string
  isAdminV1 :: bool
  isOwnerV1 :: "bool option"
  isApprovedV1 :: bool
  lastSessionIdV1 :: string
  pendingSessionIdV1 :: "string option"
  pendingSessionMetadataV1 :: "PendingMetadataV1 option"

subsection \<open>JavaScript truthiness of the optional fields\<close>

definition truthy_string :: "string option \<Rightarrow> bool" where
  \<comment> \<open>\<^verbatim>\<open>null\<close>, \<^verbatim>\<open>undefined\<close> and the empty string are falsy\<close>
  "truthy_string v = (case v of None \<Rightarrow> False | Some s \<Rightarrow> s \<noteq> [])"

definition truthy_bool :: "bool option \<Rightarrow> bool" where
  "truthy_bool v = (case v of None \<Rightarrow> False | Some b \<Rightarrow> b)"

definition sessions_of :: "SessionMetadata list option \<Rightarrow> SessionMetadata list" where
  \<comment> \<open>\<^verbatim>\<open>profile.authorizedSessions || []\<close>\<close>
  "sessions_of ss = (case ss of None \<Rightarrow> [] | Some xs \<Rightarrow> xs)"

definition some_sid :: "SessionMetadata list option \<Rightarrow> string \<Rightarrow> bool" where
  \<comment> \<open>the truthiness of \<^verbatim>\<open>authorizedSessions?.some(s => s.sid === currentSid)\<close>\<close>
  "some_sid ss currentSid =
     (case ss of None \<Rightarrow> False | Some xs \<Rightarrow> list_ex (\<lambda>s. sid s = currentSid) xs)"

definition isPrivileged :: "UserProfile \<Rightarrow> bool" where
  \<comment> \<open>\<^verbatim>\<open>profile.isAdmin || profile.isOwner\<close>\<close>
  "isPrivileged profile = (isAdmin profile \<or> truthy_bool (isOwner profile))"

subsection \<open>The client-local session identifier\<close>

text \<open>
  \<^verbatim>\<open>getLocalSessionId\<close> reads \<^verbatim>\<open>localStorage['flexer_sid']\<close>; a missing or empty entry
  is replaced by a fresh \<^verbatim>\<open>uuidv4()\<close>, which is stored. The function returns the
  identifier and the new stored value.
\<close>

definition getLocalSessionId :: "string option \<Rightarrow> string \<Rightarrow> string \<times> string option" where
  "getLocalSessionId stored fresh =
     (case stored of
        None \<Rightarrow> (fresh, Some fresh)
      | Some s \<Rightarrow> if s = [] then (fresh, Some fresh) else (s, Some s))"

section \<open>Writes to the profile store\<close>

text \<open>
  Each constructor is one shape of \<^verbatim>\<open>setDoc\<close>, \<^verbatim>\<open>updateDoc\<close> or \<^verbatim>\<open>deleteDoc\<close> call that
  occurs in the sources, with the values it carries. A handler returns
  \<open>None\<close> when it returns without calling the store.
\<close>

datatype db_write =
    SetDoc UserProfile
  | UpdateSessionsUnion SessionMetadata
  | UpdatePending string SessionMetadata
  | UpdateApprove string
  | UpdateClearPending
  | UpdateSessions "SessionMetadata list"
  | UpdateIsAdmin bool
  | UpdateIsApproved bool
  | DeleteDoc

datatype db_write_v1 =
    SetDocV1 UserProfileV1
  | UpdatePendingV1 string PendingMetadataV1

definition arrayUnion :: "'a list \<Rightarrow> 'a \<Rightarrow> 'a list" where
  \<comment> \<open>Firestore's \<^verbatim>\<open>arrayUnion\<close>: an element not yet in the array is added at its end\<close>
  "arrayUnion xs x = (if x \<in> set xs then xs else xs @ [x])"

fun update_fields :: "db_write \<Rightarrow> UserProfile \<Rightarrow> UserProfile" where
  "update_fields (UpdateSessionsUnion s) p =
     p\<lparr>authorizedSessions := Some (arrayUnion (sessions_of (authorizedSessions p)) s)\<rparr>"
| "update_fields (UpdatePending c m) p =
     p\<lparr>pendingSessionId := Some c, pendingSessionMetadata := Some m\<rparr>"
| "update_fields (UpdateApprove c) p =
     p\<lparr>lastSessionId := c, pendingSessionId := None, pendingSessionMetadata := None\<rparr>"
| "update_fields UpdateClearPending p =
     p\<lparr>pendingSessionId := None, pendingSessionMetadata := None\<rparr>"
| "update_fields (UpdateSessions xs) p = p\<lparr>authorizedSessions := Some xs\<rparr>"
| "update_fields (UpdateIsAdmin b) p = p\<lparr>isAdmin := b\<rparr>"
| "update_fields (UpdateIsApproved b) p = p\<lparr>isApproved := b\<rparr>"
| "update_fields (SetDoc q) p = q"
| "update_fields DeleteDoc p = p"

definition apply_write :: "db_write \<Rightarrow> UserProfile option \<Rightarrow> UserProfile option" where
  \<comment> \<open>the document after the write; \<^verbatim>\<open>updateDoc\<close> on a missing document stores nothing\<close>
  "apply_write w d =
     (case w of
        SetDoc q \<Rightarrow> Some q
      | DeleteDoc \<Rightarrow> None
      | _ \<Rightarrow> map_option (update_fields w) d)"

definition commit :: "db_write option \<Rightarrow> UserProfile option \<Rightarrow> UserProfile option" where
  "commit w d = (case w of None \<Rightarrow> d | Some x \<Rightarrow> apply_write x d)"

section \<open>Session evaluation on sign-in\<close>

text \<open>
  The body of the \<^verbatim>\<open>onAuthStateChanged\<close> callback of the newer \<^verbatim>\<open>App.tsx\<close> for a
  signed-in user: \<open>userDoc\<close> is the result of \<^verbatim>\<open>getDoc\<close>, \<open>currentSid\<close> that of
  \<^verbatim>\<open>getLocalSessionId()\<close>, \<open>device\<close> that of \<^verbatim>\<open>getDeviceName()\<close> and \<open>now\<close> that of
  \<^verbatim>\<open>Date.now()\<close>. The result is the write sent to \<^verbatim>\<open>users/<uid>\<close>.
\<close>

definition onAuthStateChanged ::
  "string \<Rightarrow> string option \<Rightarrow> UserProfile option \<Rightarrow> string \<Rightarrow> string \<Rightarrow> int
     \<Rightarrow> db_write option" where
  "onAuthStateChanged user_uid user_email userDoc currentSid device now =
     (case userDoc of
        None \<Rightarrow>
          (let is_owner = (user_email = Some ROOT_OWNER_EMAIL);
               session = \<lparr>sid = currentSid, deviceName = device, timestamp = now\<rparr>;
               newProfile =
                 \<lparr>uid = user_uid,
                  email = (case user_email of None \<Rightarrow> [] | Some e \<Rightarrow> e),
                  isAdmin = is_owner,
                  isOwner = Some is_owner,
                  isApproved = is_owner,
                  lastSessionId = currentSid,
                  authorizedSessions = Some (if is_owner then [session] else []),
                  pendingSessionId = None,
                  pendingSessionMetadata = None\<rparr>
           in Some (SetDoc newProfile))
      | Some existingProfile \<Rightarrow>
          (if isPrivileged existingProfile then
             (if \<not> some_sid (authorizedSessions existingProfile) currentSid
              then Some (UpdateSessionsUnion
                     \<lparr>sid = currentSid, deviceName = device, timestamp = now\<rparr>)
              else None)
           else if lastSessionId existingProfile \<noteq> currentSid then
             Some (UpdatePending currentSid
                     \<lparr>sid = currentSid, deviceName = device, timestamp = now\<rparr>)
           else None))"

definition evaluate ::
  "string \<Rightarrow> string option \<Rightarrow> UserProfile option \<Rightarrow> string \<Rightarrow> string \<Rightarrow> int
     \<Rightarrow> UserProfile option" where
  \<comment> \<open>the stored document once the callback's write, if any, has been applied\<close>
  "evaluate user_uid user_email userDoc currentSid device now =
     commit (onAuthStateChanged user_uid user_email userDoc currentSid device now) userDoc"

text \<open>The same callback in \<^verbatim>\<open>src/App.tsx\<close>, which has no branch for privileged profiles.\<close>

definition onAuthStateChangedV1 ::
  "string \<Rightarrow> string option \<Rightarrow> UserProfileV1 option \<Rightarrow> string \<Rightarrow> string \<Rightarrow> int
     \<Rightarrow> db_write_v1 option" where
  "onAuthStateChangedV1 user_uid user_email userDoc currentSid device now =
     (case userDoc of
        None \<Rightarrow>
          (let is_owner = (user_email = Some ROOT_OWNER_EMAIL);
               newProfile =
                 \<lparr>uidV1 = user_uid,
                  emailV1 = (case user_email of None \<Rightarrow> [] | Some e \<Rightarrow> e),
                  isAdminV1 = is_owner,
                  isOwnerV1 = Some is_owner,
                  isApprovedV1 = is_owner,
                  lastSessionIdV1 = currentSid,
                  pendingSessionIdV1 = None,
                  pendingSessionMetadataV1 = None\<rparr>
           in Some (SetDocV1 newProfile))
      | Some existingProfile \<Rightarrow>
          (if lastSessionIdV1 existingProfile \<noteq> currentSid then
             Some (UpdatePendingV1 currentSid
                     \<lparr>deviceNameV1 = device, timestampV1 = now\<rparr>)
           else None))"

section \<open>What the client renders\<close>

text \<open>
  The branches of the newer \<^verbatim>\<open>App\<close> component once a user and a profile are loaded:
  the "Session Overwritten" screen (\<open>STALE\<close>), the "Awaiting Verification" screen
  (\<open>PENDING_SELF\<close>), the "Security Alert" overlay with its two buttons
  (\<open>PENDING_FOREIGN\<close>), and otherwise the admin panel or the dashboard (\<open>AUTHORIZED\<close>).
\<close>

datatype session_state = STALE | PENDING_SELF | PENDING_FOREIGN | AUTHORIZED

definition isStale :: "UserProfile \<Rightarrow> string \<Rightarrow> bool" where
  "isStale profile currentSid =
     (if \<not> isPrivileged profile
      then lastSessionId profile \<noteq> currentSid \<and> pendingSessionId profile \<noteq> Some currentSid
      else \<not> some_sid (authorizedSessions profile) currentSid)"

definition render :: "UserProfile \<Rightarrow> string \<Rightarrow> session_state" where
  "render profile currentSid =
     (if isStale profile currentSid then STALE
      else if \<not> isPrivileged profile \<and> pendingSessionId profile = Some currentSid
        then PENDING_SELF
      else if \<not> isPrivileged profile \<and> truthy_string (pendingSessionId profile)
                \<and> lastSessionId profile = currentSid
        then PENDING_FOREIGN
      else AUTHORIZED)"

section \<open>Transitions\<close>

text \<open>
  \<^verbatim>\<open>approvePendingSession\<close> and \<^verbatim>\<open>denyPendingSession\<close> of \<^verbatim>\<open>App\<close> act on the profile
  held in the component's state, which may be \<^verbatim>\<open>null\<close>.
\<close>

definition approvePendingSession :: "UserProfile option \<Rightarrow> db_write option" where
  "approvePendingSession profile =
     (case profile of
        None \<Rightarrow> None
      | Some p \<Rightarrow>
          (case pendingSessionId p of
             None \<Rightarrow> None
           | Some c \<Rightarrow> if c = [] then None else Some (UpdateApprove c)))"

definition denyPendingSession :: "UserProfile option \<Rightarrow> db_write option" where
  "denyPendingSession profile =
     (case profile of None \<Rightarrow> None | Some p \<Rightarrow> Some UpdateClearPending)"

text \<open>
  The handlers of the admin panel. \<open>profile\<close> is the profile of the signed-in
  administrator (the component's prop); \<open>confirmed\<close> is the answer to the
  \<^verbatim>\<open>confirm(...)\<close> dialog. Every write goes to the document of the user named in the
  handler: the target's for the toggles, the authorization and the deletion, the
  caller's own for the revocation.
\<close>

definition handleToggleApproval :: "string \<Rightarrow> bool \<Rightarrow> db_write option" where
  "handleToggleApproval target_uid currentStatus = Some (UpdateIsApproved (\<not> currentStatus))"

definition handleToggleAdmin :: "UserProfile \<Rightarrow> UserProfile \<Rightarrow> db_write option" where
  "handleToggleAdmin profile targetUser =
     (if \<not> truthy_bool (isOwner profile) then None
      else if truthy_bool (isOwner targetUser) then None
      else Some (UpdateIsAdmin (\<not> isAdmin targetUser)))"

definition handleAuthorizeSession :: "UserProfile \<Rightarrow> db_write option" where
  "handleAuthorizeSession user =
     (case pendingSessionId user of
        None \<Rightarrow> None
      | Some c \<Rightarrow> if c = [] then None else Some (UpdateApprove c))"

definition handleRevokeDevice :: "UserProfile \<Rightarrow> bool \<Rightarrow> string \<Rightarrow> db_write option" where
  "handleRevokeDevice profile confirmed revoked =
     (if confirmed
      then Some (UpdateSessions
             (filter (\<lambda>s. sid s \<noteq> revoked) (sessions_of (authorizedSessions profile))))
      else None)"

definition handleDeleteUser :: "bool \<Rightarrow> UserProfile \<Rightarrow> db_write option" where
  "handleDeleteUser confirmed user =
     (if truthy_bool (isOwner user) then None
      else if confirmed then Some DeleteDoc
      else None)"

section \<open>Notions used in the statements\<close>

definition count_sid :: "string \<Rightarrow> SessionMetadata list option \<Rightarrow> nat" where
  \<comment> \<open>how many entries of the list carry the session id\<close>
  "count_sid c ss = length (filter (\<lambda>s. sid s = c) (sessions_of ss))"

text \<open>
  The structural invariant of the data model: a standard profile holds no authorized
  sessions (an absent list counts as empty, as it does for the program), a privileged
  one holds no pending request.
\<close>

definition structural_inv :: "UserProfile \<Rightarrow> bool" where
  "structural_inv p =
     (if isPrivileged p
      then pendingSessionId p = None \<and> pendingSessionMetadata p = None
      else sessions_of (authorizedSessions p) = [])"

definition inv_doc :: "UserProfile option \<Rightarrow> bool" where
  \<comment> \<open>the document exists and satisfies the invariant\<close>
  "inv_doc d = (case d of None \<Rightarrow> False | Some p \<Rightarrow> structural_inv p)"

text \<open>
  Comparing the two versions of the sign-in callback: a stored profile as the older
  interface sees it (without \<^verbatim>\<open>authorizedSessions\<close> and without the \<^verbatim>\<open>sid\<close> of the
  pending metadata), and two writes that agree on every field the older interface
  has.
\<close>

definition legacy_metadata :: "SessionMetadata \<Rightarrow> PendingMetadataV1" where
  "legacy_metadata m = \<lparr>deviceNameV1 = deviceName m, timestampV1 = timestamp m\<rparr>"

definition legacy_profile :: "UserProfile \<Rightarrow> UserProfileV1" where
  "legacy_profile p =
     \<lparr>uidV1 = uid p, emailV1 = email p, isAdminV1 = isAdmin p, isOwnerV1 = isOwner p,
      isApprovedV1 = isApproved p, lastSessionIdV1 = lastSessionId p,
      pendingSessionIdV1 = pendingSessionId p,
      pendingSessionMetadataV1 = map_option legacy_metadata (pendingSessionMetadata p)\<rparr>"

definition authorizedSessionsV1 :: "UserProfileV1 \<Rightarrow> SessionMetadata list option" where
  \<comment> \<open>reading \<^verbatim>\<open>authorizedSessions\<close> off a document that has the older fields only:
      the property is absent\<close>
  "authorizedSessionsV1 q = None"

fun same_write :: "db_write_v1 option \<Rightarrow> db_write option \<Rightarrow> bool" where
  "same_write None None = True"
| "same_write (Some (SetDocV1 q1)) (Some (SetDoc q)) = (q1 = legacy_profile q)"
| "same_write (Some (UpdatePendingV1 c1 m1)) (Some (UpdatePending c m)) =
     (c1 = c \<and> m1 = legacy_metadata m)"
| "same_write _ _ = False"

subsection \<open>Two concrete profiles\<close>

text \<open>
  The owner, signed in on one device \<open>A\<close>; and a standard user whose authorized
  session is \<open>A\<close> and for whom device \<open>B\<close> asked for access at time 1000.
\<close>

definition example_owner :: UserProfile where
  "example_owner =
     \<lparr>uid = ''u0'', email = ''owner@flexer.io'', isAdmin = True, isOwner = Some True,
      isApproved = True, lastSessionId = ''A'',
      authorizedSessions = Some [\<lparr>sid = ''A'', deviceName = ''laptop'', timestamp = 500\<rparr>],
      pendingSessionId = None, pendingSessionMetadata = None\<rparr>"

definition example_user :: UserProfile where
  "example_user =
     \<lparr>uid = ''u1'', email = ''user@flexer.io'', isAdmin = False, isOwner = Some False,
      isApproved = True, lastSessionId = ''A'', authorizedSessions = Some [],
      pendingSessionId = Some ''B'',
      pendingSessionMetadata = Some \<lparr>sid = ''B'', deviceName = ''phone'', timestamp = 1000\<rparr>\<rparr>"

section \<open>Basic facts\<close>

lemma sessions_of_simps [simp]:
  "sessions_of None = []"
  "sessions_of (Some xs) = xs"
  by (simp_all add: sessions_of_def)

lemma some_sid_iff: "some_sid ss c \<longleftrightarrow> c \<in> sid ` set (sessions_of ss)"
  by (auto simp: some_sid_def sessions_of_def list_ex_iff split: option.splits)

lemma some_sid_append:
  "some_sid (Some (xs @ [\<lparr>sid = c, deviceName = dv, timestamp = t\<rparr>])) c"
  by (simp add: some_sid_def)

lemma some_sid_filter: "\<not> some_sid (Some (filter (\<lambda>s. sid s \<noteq> c) xs)) c"
  by (simp add: some_sid_def list_ex_iff)

lemma arrayUnion_fresh:
  "\<not> some_sid ss c \<Longrightarrow>
     arrayUnion (sessions_of ss) \<lparr>sid = c, deviceName = dv, timestamp = t\<rparr>
       = sessions_of ss @ [\<lparr>sid = c, deviceName = dv, timestamp = t\<rparr>]"
  by (force simp: arrayUnion_def some_sid_iff)

lemma count_fresh: "\<not> some_sid ss c \<Longrightarrow> count_sid c ss = 0"
  by (auto simp: count_sid_def some_sid_iff filter_empty_conv)

lemma isPrivileged_update [simp]:
  "isPrivileged (p\<lparr>authorizedSessions := x\<rparr>) = isPrivileged p"
  "isPrivileged (p\<lparr>pendingSessionId := y\<rparr>) = isPrivileged p"
  "isPrivileged (p\<lparr>pendingSessionMetadata := z\<rparr>) = isPrivileged p"
  "isPrivileged (p\<lparr>lastSessionId := l\<rparr>) = isPrivileged p"
  "isPrivileged (p\<lparr>isApproved := a\<rparr>) = isPrivileged p"
  by (simp_all add: isPrivileged_def)

lemma example_owner_privileged: "isPrivileged example_owner"
  by (simp add: example_owner_def isPrivileged_def)

lemma example_user_standard: "\<not> isPrivileged example_user"
  by (simp add: example_user_def isPrivileged_def truthy_bool_def)

text \<open>The sign-in callback on an existing profile, by kind of account.\<close>

lemma eval_privileged:
  "isPrivileged p \<Longrightarrow>
     onAuthStateChanged u e (Some p) c dv t =
       (if some_sid (authorizedSessions p) c then None
        else Some (UpdateSessionsUnion \<lparr>sid = c, deviceName = dv, timestamp = t\<rparr>))"
  by (simp add: onAuthStateChanged_def)

lemma eval_standard:
  "\<not> isPrivileged p \<Longrightarrow>
     onAuthStateChanged u e (Some p) c dv t =
       (if lastSessionId p = c then None
        else Some (UpdatePending c \<lparr>sid = c, deviceName = dv, timestamp = t\<rparr>))"
  by (simp add: onAuthStateChanged_def)

text \<open>The older callback on an existing profile: the kind of account plays no part.\<close>

lemma eval_legacy:
  "onAuthStateChangedV1 u e (Some (legacy_profile p)) c dv t =
     (if lastSessionId p = c then None
      else Some (UpdatePendingV1 c \<lparr>deviceNameV1 = dv, timestampV1 = t\<rparr>))"
  by (simp add: onAuthStateChangedV1_def legacy_profile_def)

text \<open>What is rendered, by kind of account.\<close>

lemma render_privileged:
  "isPrivileged p \<Longrightarrow>
     render p c = (if some_sid (authorizedSessions p) c then AUTHORIZED else STALE)"
  by (simp add: render_def isStale_def)

lemma render_standard:
  "\<not> isPrivileged p \<Longrightarrow>
     render p c =
       (if lastSessionId p \<noteq> c \<and> pendingSessionId p \<noteq> Some c then STALE
        else if pendingSessionId p = Some c then PENDING_SELF
        else if truthy_string (pendingSessionId p) then PENDING_FOREIGN
        else AUTHORIZED)"
  by (auto simp: render_def isStale_def)

text \<open>
  A session identifier is never the empty string, provided \<^verbatim>\<open>uuidv4()\<close> does not
  return one: this is why a stored \<^verbatim>\<open>pendingSessionId\<close> is falsy only when it is
  \<^verbatim>\<open>null\<close> or absent.
\<close>

lemma getLocalSessionId_nonempty:
  "fresh \<noteq> [] \<Longrightarrow> fst (getLocalSessionId stored fresh) \<noteq> []"
  by (simp add: getLocalSessionId_def split: option.splits)

section \<open>Privileged accounts authorize themselves\<close>

text \<open>
  Claim C1 as stated does not hold for the callback of \<^verbatim>\<open>src/App.tsx\<close>, which has no
  branch for privileged profiles. The owner of the example, whose profile has
  \<open>lastSessionId = A\<close>, signs in on a second device \<open>B\<close>: that callback writes
  \<open>pendingSessionId = B\<close> and the pending metadata.
\<close>

theorem privileged_legacy_pending_counterexample:
  "isAdminV1 (legacy_profile example_owner)
   \<and> isOwnerV1 (legacy_profile example_owner) = Some True
   \<and> lastSessionIdV1 (legacy_profile example_owner) = ''A''
   \<and> onAuthStateChangedV1 ''u0'' (Some ''owner@flexer.io'')
        (Some (legacy_profile example_owner)) ''B'' ''phone'' 2000
       = Some (UpdatePendingV1 ''B'' \<lparr>deviceNameV1 = ''phone'', timestampV1 = 2000\<rparr>)"
  by (simp add: example_owner_def legacy_profile_def onAuthStateChangedV1_def)

text \<open>
  Claim C1, amended. For an existing privileged profile \<open>P\<close> and any local session id
  \<open>S\<close>, the sign-in callback of the newer \<^verbatim>\<open>App.tsx\<close> either writes nothing or adds the
  session to \<^verbatim>\<open>authorizedSessions\<close>; the pending fields are never written. If no entry
  of \<^verbatim>\<open>authorizedSessions\<close> carries \<open>S\<close>, the record \<open>{S, device, now}\<close> is appended at
  the end of the list, which then holds exactly one entry for \<open>S\<close>. In both cases the
  session is rendered as authorized, and a second sign-in with the same \<open>S\<close> (whatever
  the device label and the time) writes nothing and leaves the profile as it is.
  The callback of \<^verbatim>\<open>src/App.tsx\<close>, on the same profile, writes \<open>pendingSessionId = S\<close>
  and the pending metadata \<open>{device, now}\<close> when \<open>lastSessionId\<close> differs from \<open>S\<close>, and
  nothing otherwise.
\<close>

theorem privileged_self_authorizes:
  "isPrivileged P \<Longrightarrow>
     (\<exists>P'. evaluate u e (Some P) S dv t = Some P'
        \<and> (onAuthStateChanged u e (Some P) S dv t = None
             \<or> onAuthStateChanged u e (Some P) S dv t
                 = Some (UpdateSessionsUnion \<lparr>sid = S, deviceName = dv, timestamp = t\<rparr>))
        \<and> pendingSessionId P' = pendingSessionId P
        \<and> pendingSessionMetadata P' = pendingSessionMetadata P
        \<and> (\<not> some_sid (authorizedSessions P) S \<longrightarrow>
              authorizedSessions P'
                = Some (sessions_of (authorizedSessions P)
                          @ [\<lparr>sid = S, deviceName = dv, timestamp = t\<rparr>])
              \<and> count_sid S (authorizedSessions P') = 1)
        \<and> render P' S = AUTHORIZED
        \<and> onAuthStateChanged u2 e2 (Some P') S dv2 t2 = None
        \<and> evaluate u2 e2 (Some P') S dv2 t2 = Some P')
     \<and> onAuthStateChangedV1 u e (Some (legacy_profile P)) S dv t
         = (if lastSessionId P = S then None
            else Some (UpdatePendingV1 S \<lparr>deviceNameV1 = dv, timestampV1 = t\<rparr>))"
proof (cases "some_sid (authorizedSessions P) S")
  case True
  assume priv: "isPrivileged P"
  with True have w: "onAuthStateChanged u e (Some P) S dv t = None"
    by (simp add: eval_privileged)
  hence ev: "evaluate u e (Some P) S dv t = Some P"
    by (simp add: evaluate_def commit_def)
  from priv True have again: "onAuthStateChanged u2 e2 (Some P) S dv2 t2 = None"
    by (simp add: eval_privileged)
  from priv True have "render P S = AUTHORIZED"
    by (simp add: render_privileged)
  with w ev again True show ?thesis
    by (simp add: evaluate_def commit_def eval_legacy)
next
  case False
  assume priv: "isPrivileged P"
  let ?m = "\<lparr>sid = S, deviceName = dv, timestamp = t\<rparr>"
  let ?P' = "P\<lparr>authorizedSessions := Some (sessions_of (authorizedSessions P) @ [?m])\<rparr>"
  from priv False
  have w: "onAuthStateChanged u e (Some P) S dv t = Some (UpdateSessionsUnion ?m)"
    by (simp add: eval_privileged)
  hence ev: "evaluate u e (Some P) S dv t = Some ?P'"
    using False by (simp add: evaluate_def commit_def apply_write_def arrayUnion_fresh)
  have priv': "isPrivileged ?P'"
    using priv by simp
  have in': "some_sid (authorizedSessions ?P') S"
    by (simp add: some_sid_append)
  from priv' in' have again: "onAuthStateChanged u2 e2 (Some ?P') S dv2 t2 = None"
    by (simp only: eval_privileged if_True)
  from priv' in' have r: "render ?P' S = AUTHORIZED"
    by (simp only: render_privileged if_True)
  have cnt: "count_sid S (authorizedSessions ?P') = 1"
    using count_fresh [OF False] by (simp add: count_sid_def sessions_of_def)
  show ?thesis
    using w ev again r cnt by (simp add: evaluate_def commit_def eval_legacy)
qed

text \<open>
  The owner of the example signs in on a second device \<open>B\<close>: with the newer callback
  the device is appended after \<open>A\<close> and is authorized at once.
\<close>

theorem privileged_self_authorizes_witness:
  "isPrivileged example_owner
   \<and> \<not> some_sid (authorizedSessions example_owner) ''B''
   \<and> evaluate ''u0'' (Some ''owner@flexer.io'') (Some example_owner) ''B'' ''phone'' 2000
       = Some (example_owner\<lparr>authorizedSessions :=
                 Some [\<lparr>sid = ''A'', deviceName = ''laptop'', timestamp = 500\<rparr>,
                       \<lparr>sid = ''B'', deviceName = ''phone'', timestamp = 2000\<rparr>]\<rparr>)
   \<and> render (example_owner\<lparr>authorizedSessions :=
                 Some [\<lparr>sid = ''A'', deviceName = ''laptop'', timestamp = 500\<rparr>,
                       \<lparr>sid = ''B'', deviceName = ''phone'', timestamp = 2000\<rparr>]\<rparr>) ''B''
       = AUTHORIZED"
  using privileged_self_authorizes [OF example_owner_privileged,
          of "''u0''" "Some ''owner@flexer.io''" "''B''" "''phone''" 2000]
  by (simp add: example_owner_def evaluate_def commit_def apply_write_def
        onAuthStateChanged_def isPrivileged_def some_sid_def sessions_of_def
        arrayUnion_def render_def isStale_def onAuthStateChangedV1_def legacy_profile_def)

section \<open>The device that waits for approval\<close>




section \<open>Approving and denying a pending request\<close>

text \<open>
  Claim C3. For a standard profile with \<open>lastSessionId = A\<close> and \<open>pendingSessionId = B\<close>,
  \<open>B \<noteq> A\<close>, \<^verbatim>\<open>approvePendingSession\<close> sends the update that sets \<open>lastSessionId\<close> to \<open>B\<close>
  and both pending fields to \<^verbatim>\<open>null\<close>; on the updated profile session \<open>A\<close> is stale
  and session \<open>B\<close> is authorized. \<open>B\<close> is a session identifier, hence not the empty
  string (which the guard \<^verbatim>\<open>!profile.pendingSessionId\<close> takes for no request).
\<close>

theorem approve_switches_session:
  "\<not> isPrivileged P \<Longrightarrow> lastSessionId P = A \<Longrightarrow> pendingSessionId P = Some B \<Longrightarrow>
   B \<noteq> A \<Longrightarrow> B \<noteq> [] \<Longrightarrow>
     approvePendingSession (Some P) = Some (UpdateApprove B)
     \<and> commit (approvePendingSession (Some P)) (Some P)
         = Some (P\<lparr>lastSessionId := B, pendingSessionId := None,
                    pendingSessionMetadata := None\<rparr>)
     \<and> render (P\<lparr>lastSessionId := B, pendingSessionId := None,
                  pendingSessionMetadata := None\<rparr>) A = STALE
     \<and> render (P\<lparr>lastSessionId := B, pendingSessionId := None,
                  pendingSessionMetadata := None\<rparr>) B = AUTHORIZED"
  by (simp add: approvePendingSession_def commit_def apply_write_def render_standard
        truthy_string_def)

theorem approve_switches_session_witness:
  "\<not> isPrivileged example_user
   \<and> lastSessionId example_user = ''A''
   \<and> pendingSessionId example_user = Some ''B''
   \<and> ''B'' \<noteq> ''A'' \<and> ''B'' \<noteq> []
   \<and> commit (approvePendingSession (Some example_user)) (Some example_user)
       = Some (example_user\<lparr>lastSessionId := ''B'', pendingSessionId := None,
                 pendingSessionMetadata := None\<rparr>)
   \<and> render (example_user\<lparr>lastSessionId := ''B'', pendingSessionId := None,
                 pendingSessionMetadata := None\<rparr>) ''A'' = STALE
   \<and> render (example_user\<lparr>lastSessionId := ''B'', pendingSessionId := None,
                 pendingSessionMetadata := None\<rparr>) ''B'' = AUTHORIZED"
  using approve_switches_session [OF example_user_standard, of "''A''" "''B''"]
  by (simp add: example_user_def isPrivileged_def truthy_bool_def commit_def apply_write_def)

text \<open>
  Claim C4. \<^verbatim>\<open>denyPendingSession\<close> on a profile sets \<open>pendingSessionId\<close> and
  \<open>pendingSessionMetadata\<close> to \<^verbatim>\<open>null\<close> and changes no other field: \<open>lastSessionId\<close>,
  \<open>isAdmin\<close>, \<open>isOwner\<close>, \<open>isApproved\<close>, \<open>authorizedSessions\<close>, \<open>email\<close> and \<open>uid\<close> are as
  before. Afterwards the session \<open>lastSessionId\<close> is still authorized: this holds for
  every standard profile, for every profile on which that session was not stale
  before, and in particular in the only state in which the client shows the DENY
  button, the "Security Alert" overlay, where the profile is standard and the
  current session is \<open>lastSessionId\<close>.
\<close>

theorem deny_clears_pending_only:
  "commit (denyPendingSession (Some P)) (Some P)
      = Some (P\<lparr>pendingSessionId := None, pendingSessionMetadata := None\<rparr>)
   \<and> (\<exists>P'. commit (denyPendingSession (Some P)) (Some P) = Some P'
         \<and> pendingSessionId P' = None \<and> pendingSessionMetadata P' = None
         \<and> lastSessionId P' = lastSessionId P \<and> isAdmin P' = isAdmin P
         \<and> isOwner P' = isOwner P \<and> isApproved P' = isApproved P
         \<and> authorizedSessions P' = authorizedSessions P
         \<and> email P' = email P \<and> uid P' = uid P
         \<and> (\<not> isPrivileged P \<longrightarrow> render P' (lastSessionId P) = AUTHORIZED)
         \<and> (render P (lastSessionId P) \<noteq> STALE \<longrightarrow> render P' (lastSessionId P) = AUTHORIZED)
         \<and> (render P c = PENDING_FOREIGN \<longrightarrow>
               \<not> isPrivileged P \<and> lastSessionId P = c \<and> render P' c = AUTHORIZED))"
proof -
  let ?P' = "P\<lparr>pendingSessionId := None, pendingSessionMetadata := None\<rparr>"
  have c: "commit (denyPendingSession (Some P)) (Some P) = Some ?P'"
    by (simp add: denyPendingSession_def commit_def apply_write_def)
  have std: "\<not> isPrivileged P \<longrightarrow> render ?P' (lastSessionId P) = AUTHORIZED"
    by (simp add: render_standard truthy_string_def)
  have still: "render P (lastSessionId P) \<noteq> STALE \<longrightarrow> render ?P' (lastSessionId P) = AUTHORIZED"
    by (cases "isPrivileged P")
       (simp_all add: render_standard render_privileged truthy_string_def)
  have button: "render P c = PENDING_FOREIGN \<longrightarrow>
                  \<not> isPrivileged P \<and> lastSessionId P = c \<and> render ?P' c = AUTHORIZED"
    by (cases "isPrivileged P")
       (auto simp: render_standard render_privileged truthy_string_def split: if_splits)
  show ?thesis
    using c std still button by simp
qed

text \<open>
  The standard user of the example, on the authorized device \<open>A\<close>, sees the request of
  device \<open>B\<close> and denies it.
\<close>

theorem deny_clears_pending_only_witness:
  "\<not> isPrivileged example_user
   \<and> render example_user (lastSessionId example_user) \<noteq> STALE
   \<and> render example_user ''A'' = PENDING_FOREIGN
   \<and> commit (denyPendingSession (Some example_user)) (Some example_user)
      = Some (example_user\<lparr>pendingSessionId := None, pendingSessionMetadata := None\<rparr>)
   \<and> lastSessionId (example_user\<lparr>pendingSessionId := None, pendingSessionMetadata := None\<rparr>)
      = ''A''
   \<and> render (example_user\<lparr>pendingSessionId := None, pendingSessionMetadata := None\<rparr>) ''A''
      = AUTHORIZED"
  using deny_clears_pending_only [of example_user "''A''"]
  by (simp add: example_user_def isPrivileged_def truthy_bool_def render_def isStale_def
        truthy_string_def)

section \<open>The first sign-in creates the profile\<close>

text \<open>
  Claim C5 as stated does not hold for the callback of \<^verbatim>\<open>src/App.tsx\<close>: at the owner's
  first sign-in it stores a profile that has no \<^verbatim>\<open>authorizedSessions\<close> at all, not the
  list \<open>[{S, device, now}]\<close>.
\<close>

theorem first_evaluation_legacy_counterexample:
  "onAuthStateChangedV1 ''u0'' (Some ''owner@flexer.io'') None ''A'' ''laptop'' 500
     = Some (SetDocV1
        \<lparr>uidV1 = ''u0'', emailV1 = ''owner@flexer.io'', isAdminV1 = True,
         isOwnerV1 = Some True, isApprovedV1 = True, lastSessionIdV1 = ''A'',
         pendingSessionIdV1 = None, pendingSessionMetadataV1 = None\<rparr>)
   \<and> authorizedSessionsV1
        \<lparr>uidV1 = ''u0'', emailV1 = ''owner@flexer.io'', isAdminV1 = True,
         isOwnerV1 = Some True, isApprovedV1 = True, lastSessionIdV1 = ''A'',
         pendingSessionIdV1 = None, pendingSessionMetadataV1 = None\<rparr>
       \<noteq> Some [\<lparr>sid = ''A'', deviceName = ''laptop'', timestamp = 500\<rparr>]"
  by (simp add: onAuthStateChangedV1_def ROOT_OWNER_EMAIL_def authorizedSessionsV1_def)

text \<open>
  Claim C5, amended. When no profile exists, the callback of the newer \<^verbatim>\<open>App.tsx\<close>
  stores a new profile with \<open>isOwner = (email is the configured owner email)\<close>,
  \<open>isAdmin = isApproved = isOwner\<close>, \<open>lastSessionId = S\<close>, \<open>pendingSessionId = null\<close>, and
  with \<open>authorizedSessions\<close> equal to \<open>[{S, device, now}]\<close> for the owner and to \<open>[]\<close>
  otherwise; the creating session is rendered as authorized. The callback of
  \<^verbatim>\<open>src/App.tsx\<close> stores the same values of \<open>uid\<close>, \<open>email\<close>, \<open>isOwner\<close>, \<open>isAdmin\<close>,
  \<open>isApproved\<close>, \<open>lastSessionId\<close> and \<open>pendingSessionId\<close>, and no \<open>authorizedSessions\<close>.
  (The identity provider may give no email: it is then stored as the empty string
  and is not the owner's.)
\<close>

theorem first_evaluation_creates_profile:
  "onAuthStateChanged u e None S dv t
     = Some (SetDoc
        \<lparr>uid = u, email = (case e of None \<Rightarrow> [] | Some a \<Rightarrow> a),
         isAdmin = (e = Some ROOT_OWNER_EMAIL),
         isOwner = Some (e = Some ROOT_OWNER_EMAIL),
         isApproved = (e = Some ROOT_OWNER_EMAIL),
         lastSessionId = S,
         authorizedSessions =
           Some (if e = Some ROOT_OWNER_EMAIL
                 then [\<lparr>sid = S, deviceName = dv, timestamp = t\<rparr>] else []),
         pendingSessionId = None,
         pendingSessionMetadata = None\<rparr>)
   \<and> (\<exists>P'. evaluate u e None S dv t = Some P' \<and> render P' S = AUTHORIZED)
   \<and> (\<exists>Q. onAuthStateChangedV1 u e None S dv t = Some (SetDocV1 Q)
         \<and> uidV1 Q = u \<and> emailV1 Q = (case e of None \<Rightarrow> [] | Some a \<Rightarrow> a)
         \<and> isOwnerV1 Q = Some (e = Some ROOT_OWNER_EMAIL)
         \<and> isAdminV1 Q = (e = Some ROOT_OWNER_EMAIL)
         \<and> isApprovedV1 Q = (e = Some ROOT_OWNER_EMAIL)
         \<and> lastSessionIdV1 Q = S \<and> pendingSessionIdV1 Q = None
         \<and> authorizedSessionsV1 Q = None)"
  by (simp add: onAuthStateChanged_def evaluate_def commit_def apply_write_def Let_def
        render_def isStale_def isPrivileged_def truthy_bool_def some_sid_def truthy_string_def
        onAuthStateChangedV1_def authorizedSessionsV1_def)

theorem first_evaluation_creates_profile_witness:
  "onAuthStateChanged ''u0'' (Some ''owner@flexer.io'') None ''A'' ''laptop'' 500
     = Some (SetDoc example_owner)
   \<and> onAuthStateChanged ''u1'' (Some ''user@flexer.io'') None ''A'' ''laptop'' 500
     = Some (SetDoc (example_user\<lparr>isApproved := False, pendingSessionId := None,
                       pendingSessionMetadata := None\<rparr>))"
  using first_evaluation_creates_profile
          [of "''u0''" "Some ''owner@flexer.io''" "''A''" "''laptop''" 500]
        first_evaluation_creates_profile
          [of "''u1''" "Some ''user@flexer.io''" "''A''" "''laptop''" 500]
  by (simp add: example_owner_def example_user_def ROOT_OWNER_EMAIL_def
        onAuthStateChangedV1_def authorizedSessionsV1_def)

section \<open>Revoking a device\<close>

text \<open>
  Claim C6 as stated does not hold when the later evaluation is a run of the sign-in
  callback: a privileged account authorizes every session it signs in with, the
  revoked one included. The owner of the example revokes device \<open>A\<close>; at the next
  sign-in with \<open>A\<close> the callback appends \<open>A\<close> again and the session is authorized.
  The same happens when the owner is signed in on two devices \<open>A\<close> and \<open>Z\<close> and
  revokes \<open>A\<close> from \<open>Z\<close>, the case for which the panel shows the button.
\<close>

theorem revoke_then_reevaluate_counterexample:
  "isPrivileged example_owner
   \<and> some_sid (authorizedSessions example_owner) ''A''
   \<and> commit (handleRevokeDevice example_owner True ''A'') (Some example_owner)
       = Some (example_owner\<lparr>authorizedSessions := Some []\<rparr>)
   \<and> evaluate ''u0'' (Some ''owner@flexer.io'')
        (Some (example_owner\<lparr>authorizedSessions := Some []\<rparr>)) ''A'' ''laptop'' 2000
       = Some (example_owner\<lparr>authorizedSessions :=
                 Some [\<lparr>sid = ''A'', deviceName = ''laptop'', timestamp = 2000\<rparr>]\<rparr>)
   \<and> render (example_owner\<lparr>authorizedSessions :=
                 Some [\<lparr>sid = ''A'', deviceName = ''laptop'', timestamp = 2000\<rparr>]\<rparr>) ''A''
       = AUTHORIZED
   \<and> commit (handleRevokeDevice
                (example_owner\<lparr>authorizedSessions :=
                   Some [\<lparr>sid = ''A'', deviceName = ''laptop'', timestamp = 500\<rparr>,
                         \<lparr>sid = ''Z'', deviceName = ''desktop'', timestamp = 700\<rparr>]\<rparr>)
                True ''A'')
        (Some (example_owner\<lparr>authorizedSessions :=
                   Some [\<lparr>sid = ''A'', deviceName = ''laptop'', timestamp = 500\<rparr>,
                         \<lparr>sid = ''Z'', deviceName = ''desktop'', timestamp = 700\<rparr>]\<rparr>))
       = Some (example_owner\<lparr>authorizedSessions :=
                 Some [\<lparr>sid = ''Z'', deviceName = ''desktop'', timestamp = 700\<rparr>]\<rparr>)
   \<and> evaluate ''u0'' (Some ''owner@flexer.io'')
        (Some (example_owner\<lparr>authorizedSessions :=
                 Some [\<lparr>sid = ''Z'', deviceName = ''desktop'', timestamp = 700\<rparr>]\<rparr>))
        ''A'' ''laptop'' 2000
       = Some (example_owner\<lparr>authorizedSessions :=
                 Some [\<lparr>sid = ''Z'', deviceName = ''desktop'', timestamp = 700\<rparr>,
                       \<lparr>sid = ''A'', deviceName = ''laptop'', timestamp = 2000\<rparr>]\<rparr>)
   \<and> render (example_owner\<lparr>authorizedSessions :=
                 Some [\<lparr>sid = ''Z'', deviceName = ''desktop'', timestamp = 700\<rparr>,
                       \<lparr>sid = ''A'', deviceName = ''laptop'', timestamp = 2000\<rparr>]\<rparr>) ''A''
       = AUTHORIZED"
  by (simp add: example_owner_def handleRevokeDevice_def commit_def apply_write_def
        evaluate_def onAuthStateChanged_def render_def isStale_def isPrivileged_def
        some_sid_def arrayUnion_def)

text \<open>
  Claim C6, amended. For a privileged profile, a confirmed \<^verbatim>\<open>handleRevokeDevice(A)\<close>
  stores the list of authorized sessions without any entry for \<open>A\<close>, and on the
  updated profile session \<open>A\<close> is rendered as stale. A later run of the sign-in
  callback with \<open>A\<close> appends \<open>{A, device, now}\<close> to the list again, after which \<open>A\<close> is
  authorized.
\<close>

theorem revoke_then_stale_until_reevaluated:
  "isPrivileged P \<Longrightarrow>
     commit (handleRevokeDevice P True A) (Some P)
       = Some (P\<lparr>authorizedSessions :=
                Some (filter (\<lambda>s. sid s \<noteq> A) (sessions_of (authorizedSessions P)))\<rparr>)
     \<and> count_sid A (Some (filter (\<lambda>s. sid s \<noteq> A) (sessions_of (authorizedSessions P)))) = 0
     \<and> render (P\<lparr>authorizedSessions :=
                Some (filter (\<lambda>s. sid s \<noteq> A) (sessions_of (authorizedSessions P)))\<rparr>) A
         = STALE
     \<and> (\<exists>P'. evaluate u e
               (Some (P\<lparr>authorizedSessions :=
                  Some (filter (\<lambda>s. sid s \<noteq> A) (sessions_of (authorizedSessions P)))\<rparr>))
               A dv t = Some P'
            \<and> authorizedSessions P'
                = Some (filter (\<lambda>s. sid s \<noteq> A) (sessions_of (authorizedSessions P))
                        @ [\<lparr>sid = A, deviceName = dv, timestamp = t\<rparr>])
            \<and> render P' A = AUTHORIZED)"
proof -
  assume priv: "isPrivileged P"
  let ?xs = "filter (\<lambda>s. sid s \<noteq> A) (sessions_of (authorizedSessions P))"
  let ?P1 = "P\<lparr>authorizedSessions := Some ?xs\<rparr>"
  let ?m = "\<lparr>sid = A, deviceName = dv, timestamp = t\<rparr>"
  have priv1: "isPrivileged ?P1"
    using priv by simp
  have fresh: "\<not> some_sid (authorizedSessions ?P1) A"
    by (simp add: some_sid_filter)
  have c1: "commit (handleRevokeDevice P True A) (Some P) = Some ?P1"
    by (simp add: handleRevokeDevice_def commit_def apply_write_def)
  have c2: "count_sid A (Some ?xs) = 0"
    using fresh count_fresh [of "Some ?xs" A] by simp
  have c3: "render ?P1 A = STALE"
    using priv1 fresh by (simp only: render_privileged if_False)
  have w: "onAuthStateChanged u e (Some ?P1) A dv t = Some (UpdateSessionsUnion ?m)"
    using priv1 fresh by (simp only: eval_privileged if_False)
  have au: "arrayUnion ?xs ?m = ?xs @ [?m]"
    using arrayUnion_fresh [OF fresh, of dv t] by simp
  have ev: "evaluate u e (Some ?P1) A dv t
              = Some (P\<lparr>authorizedSessions := Some (?xs @ [?m])\<rparr>)"
    using w au by (simp add: evaluate_def commit_def apply_write_def)
  have r: "render (P\<lparr>authorizedSessions := Some (?xs @ [?m])\<rparr>) A = AUTHORIZED"
    using priv by (simp add: render_privileged some_sid_append)
  show ?thesis
    using c1 c2 c3 ev r by simp
qed

theorem revoke_then_stale_until_reevaluated_witness:
  "isPrivileged example_owner
   \<and> commit (handleRevokeDevice example_owner True ''A'') (Some example_owner)
       = Some (example_owner\<lparr>authorizedSessions := Some []\<rparr>)
   \<and> render (example_owner\<lparr>authorizedSessions := Some []\<rparr>) ''A'' = STALE"
  using revoke_then_stale_until_reevaluated [OF example_owner_privileged,
          of "''A''" "''u0''" "Some ''owner@flexer.io''" "''laptop''" 2000]
  by (simp add: example_owner_def isPrivileged_def)

section \<open>The administrator's override\<close>

text \<open>
  Claim C7. \<^verbatim>\<open>handleAuthorizeSession(user)\<close> sends exactly the write that
  \<^verbatim>\<open>approvePendingSession\<close> sends for the same profile. When the profile has a pending
  session identifier \<open>B\<close>, that write sets \<open>lastSessionId\<close> to \<open>B\<close> and both pending
  fields to \<^verbatim>\<open>null\<close>; when it has none (the field is \<^verbatim>\<open>null\<close>, absent or, for
  JavaScript, the empty string), neither operation writes.
\<close>

theorem authorize_session_is_approve:
  "handleAuthorizeSession U = approvePendingSession (Some U)
   \<and> (pendingSessionId U = Some B \<and> B \<noteq> [] \<longrightarrow>
        handleAuthorizeSession U = Some (UpdateApprove B)
        \<and> commit (handleAuthorizeSession U) (Some U)
            = Some (U\<lparr>lastSessionId := B, pendingSessionId := None,
                       pendingSessionMetadata := None\<rparr>)
        \<and> commit (approvePendingSession (Some U)) (Some U)
            = Some (U\<lparr>lastSessionId := B, pendingSessionId := None,
                       pendingSessionMetadata := None\<rparr>))
   \<and> (\<not> truthy_string (pendingSessionId U) \<longrightarrow>
        handleAuthorizeSession U = None \<and> approvePendingSession (Some U) = None)"
  by (auto simp: handleAuthorizeSession_def approvePendingSession_def commit_def
        apply_write_def truthy_string_def split: option.splits)

theorem authorize_session_is_approve_witness:
  "pendingSessionId example_user = Some ''B'' \<and> ''B'' \<noteq> []
   \<and> handleAuthorizeSession example_user = Some (UpdateApprove ''B'')
   \<and> approvePendingSession (Some example_user) = Some (UpdateApprove ''B'')
   \<and> commit (handleAuthorizeSession example_user) (Some example_user)
       = Some (example_user\<lparr>lastSessionId := ''B'', pendingSessionId := None,
                 pendingSessionMetadata := None\<rparr>)
   \<and> \<not> truthy_string (pendingSessionId example_owner)
   \<and> handleAuthorizeSession example_owner = None
   \<and> approvePendingSession (Some example_owner) = None"
  using authorize_session_is_approve [of example_user "''B''"]
        authorize_session_is_approve [of example_owner "''B''"]
  by (simp add: example_user_def example_owner_def truthy_string_def
        handleAuthorizeSession_def approvePendingSession_def commit_def apply_write_def)

section \<open>The structural invariant\<close>

lemma inv_evaluate_new: "inv_doc (evaluate u e None S dv t)"
  by (simp add: inv_doc_def evaluate_def commit_def apply_write_def onAuthStateChanged_def
        Let_def structural_inv_def isPrivileged_def truthy_bool_def)

lemma inv_evaluate_existing:
  "structural_inv P \<Longrightarrow> inv_doc (evaluate u e (Some P) S dv t)"
  by (cases "isPrivileged P")
     (simp_all add: inv_doc_def evaluate_def commit_def apply_write_def eval_privileged
        eval_standard structural_inv_def)

lemma inv_approve:
  "structural_inv P \<Longrightarrow> inv_doc (commit (approvePendingSession (Some P)) (Some P))"
  by (cases "isPrivileged P")
     (auto simp: inv_doc_def commit_def apply_write_def approvePendingSession_def
        structural_inv_def split: option.splits)

lemma inv_authorize:
  "structural_inv P \<Longrightarrow> inv_doc (commit (handleAuthorizeSession P) (Some P))"
  by (cases "isPrivileged P")
     (auto simp: inv_doc_def commit_def apply_write_def handleAuthorizeSession_def
        structural_inv_def split: option.splits)

lemma inv_deny:
  "structural_inv P \<Longrightarrow> inv_doc (commit (denyPendingSession (Some P)) (Some P))"
  by (simp add: inv_doc_def commit_def apply_write_def denyPendingSession_def
        structural_inv_def)

lemma inv_revoke:
  "structural_inv P \<Longrightarrow> inv_doc (commit (handleRevokeDevice P cf A) (Some P))"
  by (auto simp: inv_doc_def commit_def apply_write_def handleRevokeDevice_def
        structural_inv_def)

lemma toggle_refused:
  "\<not> truthy_bool (isOwner C) \<or> truthy_bool (isOwner P) \<Longrightarrow>
     handleToggleAdmin C P = None"
  by (auto simp: handleToggleAdmin_def)

lemma toggle_effect:
  "truthy_bool (isOwner C) \<Longrightarrow> \<not> truthy_bool (isOwner P) \<Longrightarrow>
     commit (handleToggleAdmin C P) (Some P) = Some (P\<lparr>isAdmin := \<not> isAdmin P\<rparr>)"
  by (simp add: handleToggleAdmin_def commit_def apply_write_def)

lemma toggle_inv:
  "\<not> truthy_bool (isOwner P) \<Longrightarrow> structural_inv P \<Longrightarrow>
     structural_inv (P\<lparr>isAdmin := \<not> isAdmin P\<rparr>)
       \<longleftrightarrow> sessions_of (authorizedSessions P) = [] \<and> pendingSessionId P = None
            \<and> pendingSessionMetadata P = None"
  by (auto simp: structural_inv_def isPrivileged_def split: if_splits)

text \<open>
  Claim C8 as stated does not hold for the admin role toggle, which writes \<open>isAdmin\<close>
  and nothing else. The owner promotes the standard user of the example while the
  user's request from device \<open>B\<close> is still pending: the profile is now privileged and
  keeps its pending request.
\<close>

theorem toggle_breaks_invariant_counterexample:
  "structural_inv example_user
   \<and> commit (handleToggleAdmin example_owner example_user) (Some example_user)
       = Some (example_user\<lparr>isAdmin := True\<rparr>)
   \<and> isPrivileged (example_user\<lparr>isAdmin := True\<rparr>)
   \<and> pendingSessionId (example_user\<lparr>isAdmin := True\<rparr>) = Some ''B''
   \<and> \<not> structural_inv (example_user\<lparr>isAdmin := True\<rparr>)"
  by (simp add: example_user_def example_owner_def structural_inv_def isPrivileged_def
        truthy_bool_def handleToggleAdmin_def commit_def apply_write_def)

text \<open>
  Claim C8, amended. Profile creation establishes the invariant, and the sign-in
  callback (of the newer \<^verbatim>\<open>App.tsx\<close>) on an existing profile, approve, deny, revoke
  (confirmed or not) and the administrator's session authorization preserve it. The
  admin role toggle, when it is not refused, only negates \<open>isAdmin\<close>: the invariant
  survives it exactly when the profile has no authorized session and no pending
  request.
\<close>

theorem invariant_preserved_except_toggle:
  "structural_inv P \<Longrightarrow>
     inv_doc (evaluate u e None S dv t)
     \<and> inv_doc (evaluate u e (Some P) S dv t)
     \<and> inv_doc (commit (approvePendingSession (Some P)) (Some P))
     \<and> inv_doc (commit (denyPendingSession (Some P)) (Some P))
     \<and> inv_doc (commit (handleRevokeDevice P cf A) (Some P))
     \<and> inv_doc (commit (handleAuthorizeSession P) (Some P))
     \<and> (truthy_bool (isOwner C) \<and> \<not> truthy_bool (isOwner P) \<longrightarrow>
          commit (handleToggleAdmin C P) (Some P) = Some (P\<lparr>isAdmin := \<not> isAdmin P\<rparr>)
          \<and> (structural_inv (P\<lparr>isAdmin := \<not> isAdmin P\<rparr>)
               \<longleftrightarrow> sessions_of (authorizedSessions P) = [] \<and> pendingSessionId P = None
                    \<and> pendingSessionMetadata P = None))
     \<and> (\<not> truthy_bool (isOwner C) \<or> truthy_bool (isOwner P) \<longrightarrow>
          commit (handleToggleAdmin C P) (Some P) = Some P)"
proof -
  assume inv: "structural_inv P"
  have refused: "\<not> truthy_bool (isOwner C) \<or> truthy_bool (isOwner P) \<longrightarrow>
                   commit (handleToggleAdmin C P) (Some P) = Some P"
    using toggle_refused [of C P] by (auto simp: commit_def)
  have performed: "truthy_bool (isOwner C) \<and> \<not> truthy_bool (isOwner P) \<longrightarrow>
          commit (handleToggleAdmin C P) (Some P) = Some (P\<lparr>isAdmin := \<not> isAdmin P\<rparr>)
          \<and> (structural_inv (P\<lparr>isAdmin := \<not> isAdmin P\<rparr>)
               \<longleftrightarrow> sessions_of (authorizedSessions P) = [] \<and> pendingSessionId P = None
                    \<and> pendingSessionMetadata P = None)"
    using toggle_effect [of C P] toggle_inv [OF _ inv] by blast
  show ?thesis
    using inv_evaluate_new [of u e S dv t] inv_evaluate_existing [OF inv, of u e S dv t]
      inv_approve [OF inv] inv_deny [OF inv] inv_revoke [OF inv, of cf A]
      inv_authorize [OF inv] refused performed
    by blast
qed

theorem invariant_preserved_except_toggle_witness:
  "structural_inv example_user
   \<and> inv_doc (evaluate ''u1'' (Some ''user@flexer.io'') (Some example_user) ''C'' ''tablet'' 2000)
   \<and> inv_doc (commit (approvePendingSession (Some example_user)) (Some example_user))
   \<and> inv_doc (commit (denyPendingSession (Some example_user)) (Some example_user))
   \<and> truthy_bool (isOwner example_owner) \<and> \<not> truthy_bool (isOwner example_user)
   \<and> commit (handleToggleAdmin example_owner example_user) (Some example_user)
       = Some (example_user\<lparr>isAdmin := True\<rparr>)"
proof -
  have inv: "structural_inv example_user"
    by (simp add: example_user_def structural_inv_def isPrivileged_def truthy_bool_def)
  have own: "truthy_bool (isOwner example_owner) \<and> \<not> truthy_bool (isOwner example_user)"
    by (simp add: example_owner_def example_user_def truthy_bool_def)
  have adm: "\<not> isAdmin example_user"
    by (simp add: example_user_def)
  show ?thesis
    using invariant_preserved_except_toggle [OF inv,
            of "''u1''" "Some ''user@flexer.io''" "''C''" "''tablet''" 2000 True "''A''"
               example_owner]
          inv own adm
    by simp
qed

section \<open>The owner is protected\<close>

text \<open>
  Claim C9. When the target profile is the owner's, \<^verbatim>\<open>handleToggleAdmin\<close> and
  \<^verbatim>\<open>handleDeleteUser\<close> return without a write, whoever the caller is and whatever the
  answer to the confirmation dialog, so the owner's document is unchanged. When the
  caller is not the owner, \<^verbatim>\<open>handleToggleAdmin\<close> returns without a write for every
  target.
\<close>

theorem owner_protected:
  "(truthy_bool (isOwner T) \<longrightarrow>
      handleToggleAdmin C T = None \<and> handleDeleteUser cf T = None
      \<and> commit (handleToggleAdmin C T) (Some T) = Some T
      \<and> commit (handleDeleteUser cf T) (Some T) = Some T)
   \<and> (\<not> truthy_bool (isOwner C) \<longrightarrow>
      handleToggleAdmin C T = None \<and> commit (handleToggleAdmin C T) (Some T) = Some T)"
  by (simp add: handleToggleAdmin_def handleDeleteUser_def commit_def)

theorem owner_protected_witness:
  "truthy_bool (isOwner example_owner)
   \<and> handleToggleAdmin example_owner example_owner = None
   \<and> handleDeleteUser True example_owner = None
   \<and> commit (handleDeleteUser True example_owner) (Some example_owner) = Some example_owner
   \<and> \<not> truthy_bool (isOwner example_user)
   \<and> handleToggleAdmin example_user example_user = None"
proof -
  have own: "truthy_bool (isOwner example_owner)"
    by (simp add: example_owner_def truthy_bool_def)
  have usr: "\<not> truthy_bool (isOwner example_user)"
    by (simp add: example_user_def truthy_bool_def)
  show ?thesis
    using owner_protected [of example_owner example_owner True]
          owner_protected [of example_user example_user True] own usr
    by (simp add: commit_def)
qed

section \<open>The two versions of the sign-in callback\<close>

text \<open>
  Claim C10 as stated does not hold. The owner of the example signs in on a new
  device \<open>B\<close>: the newer callback adds \<open>B\<close> to \<^verbatim>\<open>authorizedSessions\<close>, the one in
  \<^verbatim>\<open>src/App.tsx\<close> registers a pending request.
\<close>

theorem versions_differ_counterexample:
  "onAuthStateChanged ''u0'' (Some ''owner@flexer.io'') (Some example_owner)
      ''B'' ''phone'' 2000
     = Some (UpdateSessionsUnion \<lparr>sid = ''B'', deviceName = ''phone'', timestamp = 2000\<rparr>)
   \<and> onAuthStateChangedV1 ''u0'' (Some ''owner@flexer.io'')
      (Some (legacy_profile example_owner)) ''B'' ''phone'' 2000
     = Some (UpdatePendingV1 ''B'' \<lparr>deviceNameV1 = ''phone'', timestampV1 = 2000\<rparr>)
   \<and> \<not> same_write
        (onAuthStateChangedV1 ''u0'' (Some ''owner@flexer.io'')
           (Some (legacy_profile example_owner)) ''B'' ''phone'' 2000)
        (onAuthStateChanged ''u0'' (Some ''owner@flexer.io'') (Some example_owner)
           ''B'' ''phone'' 2000)"
  by (simp add: example_owner_def legacy_profile_def onAuthStateChanged_def
        onAuthStateChangedV1_def isPrivileged_def some_sid_def)

text \<open>
  Claim C10, amended. On the fields the older interface has (all but
  \<^verbatim>\<open>authorizedSessions\<close> and the \<^verbatim>\<open>sid\<close> inside the pending metadata), the two callbacks
  send the same write, or both none, exactly in these cases: no profile exists yet;
  the profile is standard; or the profile is privileged and the session is both its
  \<open>lastSessionId\<close> and among its authorized sessions (neither callback writes). For
  every other privileged profile they differ.
\<close>

theorem versions_agree_iff:
  "same_write (onAuthStateChangedV1 u e (map_option legacy_profile D) S dv t)
              (onAuthStateChanged u e D S dv t)
   \<longleftrightarrow> (case D of
          None \<Rightarrow> True
        | Some P \<Rightarrow> \<not> isPrivileged P
                   \<or> (lastSessionId P = S \<and> some_sid (authorizedSessions P) S))"
proof (cases D)
  case None
  then show ?thesis
    by (simp add: onAuthStateChangedV1_def onAuthStateChanged_def Let_def legacy_profile_def)
next
  case (Some P)
  then show ?thesis
    by (cases "isPrivileged P")
       (auto simp: onAuthStateChangedV1_def eval_standard eval_privileged legacy_profile_def
          legacy_metadata_def)
qed

theorem versions_agree_iff_witness:
  "\<not> isPrivileged example_user
   \<and> same_write
       (onAuthStateChangedV1 ''u1'' (Some ''user@flexer.io'')
          (Some (legacy_profile example_user)) ''C'' ''tablet'' 2000)
       (onAuthStateChanged ''u1'' (Some ''user@flexer.io'') (Some example_user)
          ''C'' ''tablet'' 2000)
   \<and> onAuthStateChangedV1 ''u1'' (Some ''user@flexer.io'')
          (Some (legacy_profile example_user)) ''C'' ''tablet'' 2000
       = Some (UpdatePendingV1 ''C'' \<lparr>deviceNameV1 = ''tablet'', timestampV1 = 2000\<rparr>)
   \<and> onAuthStateChanged ''u1'' (Some ''user@flexer.io'') (Some example_user)
          ''C'' ''tablet'' 2000
       = Some (UpdatePending ''C'' \<lparr>sid = ''C'', deviceName = ''tablet'', timestamp = 2000\<rparr>)"
proof -
  have v1: "onAuthStateChangedV1 ''u1'' (Some ''user@flexer.io'')
          (Some (legacy_profile example_user)) ''C'' ''tablet'' 2000
       = Some (UpdatePendingV1 ''C'' \<lparr>deviceNameV1 = ''tablet'', timestampV1 = 2000\<rparr>)"
    by (simp add: onAuthStateChangedV1_def legacy_profile_def example_user_def)
  have v2: "onAuthStateChanged ''u1'' (Some ''user@flexer.io'') (Some example_user)
          ''C'' ''tablet'' 2000
       = Some (UpdatePending ''C'' \<lparr>sid = ''C'', deviceName = ''tablet'', timestamp = 2000\<rparr>)"
    by (simp add: eval_standard example_user_standard) (simp add: example_user_def)
  have "same_write
       (onAuthStateChangedV1 ''u1'' (Some ''user@flexer.io'')
          (Some (legacy_profile example_user)) ''C'' ''tablet'' 2000)
       (onAuthStateChanged ''u1'' (Some ''user@flexer.io'') (Some example_user)
          ''C'' ''tablet'' 2000)"
    using versions_agree_iff [of "''u1''" "Some ''user@flexer.io''" "Some example_user"
            "''C''" "''tablet''" 2000] example_user_standard
    by simp
  with v1 v2 example_user_standard show ?thesis
    by simp
qed

end
